theory Spec2Isabelle
  imports Complex_Main "HOL-Library.Sublist" "HOL-Library.List_Lexorder" "HOL-Library.Char_ord"
begin

section \<open>Values of the host language\<close>

text \<open>
  The dashboard is a single JavaScript module. A value read as an amount is a finite
  number or the non-numeric value \<open>NaN\<close> that \<open>Number(...)\<close> returns for text that is
  no number. Every comparison with \<open>NaN\<close> is false, as in the language.
\<close>

datatype jsnum = Num real | NaN

fun js_gt :: "jsnum \<Rightarrow> jsnum \<Rightarrow> bool" where
  "js_gt (Num a) (Num b) = (b < a)"
| "js_gt _ _ = False"

fun Math_abs :: "jsnum \<Rightarrow> jsnum" where
  "Math_abs (Num a) = Num \<bar>a\<bar>"
| "Math_abs NaN = NaN"

text \<open>\<open>Number(v) || 0\<close>: \<open>NaN\<close> (and zero) are falsy, so the result is a real.\<close>

fun num_or_zero :: "jsnum \<Rightarrow> real" where
  "num_or_zero (Num a) = a"
| "num_or_zero NaN = 0"

text \<open>
  The results of the arithmetic of the aggregator and the forecaster are doubles: a finite
  value, one of the two infinities, or \<open>NaN\<close>. (The sign of a zero is not kept: it
  shows only when a value other than 0 is divided by a zero, which the two functions never
  do.) Every operation on two finite doubles returns the
  exact result rounded to a double; the rounding \<open>fl\<close> belongs to the host and is a
  parameter, so a sum of finite values may be an infinity. On an infinity or \<open>NaN\<close> the
  operations follow IEEE 754.
\<close>

datatype double = Fin real | PosInf | NegInf | NotANumber

fun d_neg :: "double \<Rightarrow> double" where
  "d_neg (Fin a) = Fin (- a)"
| "d_neg PosInf = NegInf"
| "d_neg NegInf = PosInf"
| "d_neg NotANumber = NotANumber"

fun d_add :: "(real \<Rightarrow> double) \<Rightarrow> double \<Rightarrow> double \<Rightarrow> double" where
  "d_add fl (Fin a) (Fin b) = fl (a + b)"
| "d_add fl NotANumber y = NotANumber"
| "d_add fl x NotANumber = NotANumber"
| "d_add fl PosInf NegInf = NotANumber"
| "d_add fl NegInf PosInf = NotANumber"
| "d_add fl PosInf y = PosInf"
| "d_add fl x PosInf = PosInf"
| "d_add fl NegInf y = NegInf"
| "d_add fl x NegInf = NegInf"

definition d_sub :: "(real \<Rightarrow> double) \<Rightarrow> double \<Rightarrow> double \<Rightarrow> double" where
  "d_sub fl x y = d_add fl x (d_neg y)"

text \<open>The sign of a double that is not \<open>NaN\<close>: 1, 0 or -1.\<close>

fun d_sgn :: "double \<Rightarrow> real" where
  "d_sgn (Fin a) = sgn a"
| "d_sgn PosInf = 1"
| "d_sgn NegInf = - 1"
| "d_sgn NotANumber = 0"

fun d_mul :: "(real \<Rightarrow> double) \<Rightarrow> double \<Rightarrow> double \<Rightarrow> double" where
  "d_mul fl (Fin a) (Fin b) = fl (a * b)"
| "d_mul fl NotANumber y = NotANumber"
| "d_mul fl x NotANumber = NotANumber"
| "d_mul fl x y =
     (if d_sgn x * d_sgn y = 0 then NotANumber
      else if 0 < d_sgn x * d_sgn y then PosInf else NegInf)"

fun d_div :: "(real \<Rightarrow> double) \<Rightarrow> double \<Rightarrow> double \<Rightarrow> double" where
  "d_div fl (Fin a) (Fin b) =
     (if b = 0 then (if a = 0 then NotANumber else if 0 < a then PosInf else NegInf)
      else fl (a / b))"
| "d_div fl NotANumber y = NotANumber"
| "d_div fl x NotANumber = NotANumber"
| "d_div fl (Fin a) y = Fin 0"
| "d_div fl x (Fin b) = (if (0 < d_sgn x) = (0 \<le> b) then PosInf else NegInf)"
| "d_div fl x y = NotANumber"


fun Math_max :: "double \<Rightarrow> double \<Rightarrow> double" where
  "Math_max (Fin a) (Fin b) = Fin (max a b)"
| "Math_max NotANumber y = NotANumber"
| "Math_max x NotANumber = NotANumber"
| "Math_max PosInf y = PosInf"
| "Math_max x PosInf = PosInf"
| "Math_max NegInf y = y"
| "Math_max x NegInf = x"

text \<open>
  A rounding for closed examples: the exact value below \<open>2^1024\<close> in magnitude, where the
  doubles end, and an infinity from there on. It is the rounding of the host on every
  value that is a double and on every value of magnitude \<open>2^1024\<close> or more.
\<close>

definition exact_fl :: "real \<Rightarrow> double" where
  "exact_fl r = (if 2 ^ 1024 \<le> r then PosInf else if r \<le> - (2 ^ 1024) then NegInf else Fin r)"

text \<open>
  What a theorem may ask of the rounding: that it leaves a given double as it is, and
  that it is exact on every value up to a bound.
\<close>

fun representable :: "(real \<Rightarrow> double) \<Rightarrow> double \<Rightarrow> bool" where
  "representable fl (Fin r) = (fl r = Fin r)"
| "representable fl x = True"




text \<open>
  Strings are lists of code units below 256 (\<^typ>\<open>char\<close>). \<open>toLowerCase\<close> maps the
  capitals \<open>A\<close>..\<open>Z\<close> and the capitals of the upper half of that range (192..222 except the
  multiplication sign 215) to the letter 32 places further on and leaves everything else.
\<close>

definition lower_char :: "char \<Rightarrow> char" where
  "lower_char c =
     (let n = (of_char c :: nat) in
      if (65 \<le> n \<and> n \<le> 90) \<or> (192 \<le> n \<and> n \<le> 222 \<and> n \<noteq> 215)
      then char_of (n + 32) else c)"

definition toLowerCase :: "string \<Rightarrow> string" where
  "toLowerCase s = map lower_char s"

text \<open>\<open>text.includes(kw)\<close> of the source: \<open>kw\<close> occurs in \<open>text\<close> as a contiguous run.\<close>

fun str_includes :: "string \<Rightarrow> string \<Rightarrow> bool" where
  "str_includes [] kw = (kw = [])"
| "str_includes (c # cs) kw = (prefix kw (c # cs) \<or> str_includes cs kw)"

section \<open>Categorizer\<close>

definition CATEGORIES :: "string list" where
  "CATEGORIES =
     [''Groceries'', ''Entertainment'', ''Transport'', ''Dining'', ''Utilities'',
      ''Health'', ''Shopping'', ''Income'', ''Other'']"

text \<open>
  \<open>KEYWORD_MAP\<close> is an object literal with string keys; \<open>Object.entries\<close> lists it in
  the order the keys are written, so it is an association list.
\<close>

definition KEYWORD_MAP :: "(string \<times> string list) list" where
  "KEYWORD_MAP =
     [(''Groceries'', [''grocery'', ''supermarket'', ''market'', ''aldi'', ''walmart'']),
      (''Entertainment'', [''netflix'', ''movie'', ''concert'', ''spotify'', ''game'']),
      (''Transport'', [''uber'', ''lyft'', ''taxi'', ''bus'', ''train'', ''fuel'', ''gas'']),
      (''Dining'', [''restaurant'', ''cafe'', ''diner'', ''pizza'', ''coffee'', ''eat'']),
      (''Utilities'', [''electric'', ''water'', ''gas bill'', ''internet'', ''phone'']),
      (''Health'', [''pharmacy'', ''hospital'', ''doctor'', ''dentist'', ''clinic'']),
      (''Shopping'', [''amazon'', ''mall'', ''clothes'', ''shoe'', ''store'', ''shop'']),
      (''Income'', [''salary'', ''deposit'', ''payroll'', ''refund''])]"

text \<open>
  The two nested \<open>for\<close> loops of \<open>categorizeExpense\<close>: the entries in order, and within an
  entry its keywords in order; the first keyword found in the text returns the entry's key.
\<close>

fun keyword_scan :: "string \<Rightarrow> (string \<times> string list) list \<Rightarrow> string option" where
  "keyword_scan text [] = None"
| "keyword_scan text ((cat, keywords) # rest) =
     (if list_ex (str_includes text) keywords then Some cat else keyword_scan text rest)"

text \<open>
  \<open>categorizeExpense\<close> takes an object and reads its fields \<open>description\<close> and \<open>amount\<close>;
  it is called with a whole expense as well as with a two-field literal, so the argument
  is any record that extends \<open>entry\<close>. The description is \<open>None\<close> when the field is absent
  (\<open>undefined\<close> or \<open>null\<close>); an absent and an empty description are both falsy.
\<close>

record entry =
  description :: "string option"
  amount :: jsnum

definition categorizeExpense :: "'a entry_scheme \<Rightarrow> string" where
  "categorizeExpense e =
     (case description e of
        None \<Rightarrow> ''Other''
      | Some d \<Rightarrow>
          if d = [] then ''Other''
          else let text = toLowerCase d in
            if js_gt (amount e) (Num 0) then ''Income''
            else (case keyword_scan text KEYWORD_MAP of
                    Some cat \<Rightarrow> cat
                  | None \<Rightarrow>
                      if js_gt (Math_abs (amount e)) (Num 200) then ''Shopping''
                      else ''Other''))"

text \<open>The keywords listed under a category, and whether a text holds one of them.\<close>

definition keywords_of :: "string \<Rightarrow> string list" where
  "keywords_of cat = (case map_of KEYWORD_MAP cat of Some kws \<Rightarrow> kws | None \<Rightarrow> [])"

definition has_keyword :: "string \<Rightarrow> string \<Rightarrow> bool" where
  "has_keyword cat d = list_ex (str_includes (toLowerCase d)) (keywords_of cat)"

section \<open>Ingestion\<close>

text \<open>
  An expense as the application stores it. The \<open>id\<close> field (a clock reading plus a random
  number) is read by none of the functions below and is left out.
\<close>

record expense = entry +
  date :: string
  category :: string

text \<open>
  \<open>String.prototype.trim\<close> removes white space and line terminators at both ends; among
  the code units below 256 these are 9 to 13, 32 and 160.
\<close>

definition is_space :: "char \<Rightarrow> bool" where
  "is_space c = ((of_char c :: nat) \<in> {9, 10, 11, 12, 13, 32, 160})"

definition trim :: "string \<Rightarrow> string" where
  "trim s = rev (dropWhile is_space (rev (dropWhile is_space s)))"

text \<open>
  \<open>text.split(/\r?\n/)\<close>: a line feed, together with a carriage return right before it,
  separates two lines; the empty text is one empty line.
\<close>

fun split_lines :: "string \<Rightarrow> string list" where
  "split_lines [] = [[]]"
| "split_lines (c # cs) =
     (if c = CHR 0x0D \<and> cs \<noteq> [] \<and> hd cs = CHR 0x0A
      then [] # split_lines (tl cs)
      else if c = CHR 0x0A then [] # split_lines cs
      else (case split_lines cs of
              l # ls \<Rightarrow> (c # l) # ls
            | [] \<Rightarrow> [[c]]))"

text \<open>\<open>r.split(",")\<close>.\<close>

fun split_comma :: "string \<Rightarrow> string list" where
  "split_comma [] = [[]]"
| "split_comma (c # cs) =
     (if c = CHR '','' then [] # split_comma cs
      else (case split_comma cs of
              p # ps \<Rightarrow> (c # p) # ps
            | [] \<Rightarrow> [[c]]))"

definition csv_rows :: "string \<Rightarrow> string list" where
  "csv_rows text = filter (\<lambda>r. r \<noteq> []) (map trim (split_lines text))"

text \<open>
  The object that \<open>importCSV\<close> pushes for a row with at least three fields. The
  conversion \<open>Number\<close> of a string to a number belongs to the host; it is a parameter.
\<close>

definition csv_expense :: "(string \<Rightarrow> jsnum) \<Rightarrow> string list \<Rightarrow> expense" where
  "csv_expense Number parts =
     (let d = trim (parts ! 0);
          desc = trim (parts ! 1);
          amt = Number (trim (parts ! 2))
      in \<lparr>description = Some desc, amount = amt, date = d,
          category = categorizeExpense \<lparr>description = Some desc, amount = amt\<rparr>\<rparr>)"

text \<open>One turn of the loop of \<open>importCSV\<close>.\<close>

definition csv_row :: "(string \<Rightarrow> jsnum) \<Rightarrow> expense list \<Rightarrow> string \<Rightarrow> expense list" where
  "csv_row Number parsed r =
     (let parts = split_comma r in
      if length parts < 3 then parsed
      else parsed @ [csv_expense Number parts])"

definition csv_parsed :: "(string \<Rightarrow> jsnum) \<Rightarrow> string \<Rightarrow> expense list" where
  "csv_parsed Number text = foldl (csv_row Number) [] (csv_rows text)"

text \<open>
  \<open>importCSV\<close> returns nothing; its effect is \<open>setExpenses((s) => [...parsed, ...s])\<close>,
  so the model maps the stored list to the new stored list.
\<close>

definition importCSV :: "(string \<Rightarrow> jsnum) \<Rightarrow> string \<Rightarrow> expense list \<Rightarrow> expense list" where
  "importCSV Number text expenses = csv_parsed Number text @ expenses"

text \<open>
  An instance of the host's conversion for closed examples: an optional sign, digits and at
  most one decimal point, read in base ten; the empty string is 0. On these strings it is
  the value \<open>Number\<close> gives; every other string is \<open>NaN\<close> here.
\<close>

definition is_digit :: "char \<Rightarrow> bool" where
  "is_digit c = (48 \<le> (of_char c :: nat) \<and> (of_char c :: nat) \<le> 57)"

definition digits_value :: "string \<Rightarrow> nat" where
  "digits_value ds = foldl (\<lambda>a c. 10 * a + ((of_char c :: nat) - 48)) 0 ds"

definition decimal_Number :: "string \<Rightarrow> jsnum" where
  "decimal_Number s =
     (let neg = (s \<noteq> [] \<and> hd s = CHR ''-'');
          body = (if s \<noteq> [] \<and> (hd s = CHR ''-'' \<or> hd s = CHR ''+'') then tl s else s);
          ip = takeWhile (\<lambda>c. c \<noteq> CHR ''.'') body;
          fp = drop 1 (dropWhile (\<lambda>c. c \<noteq> CHR ''.'') body);
          v = real (digits_value ip) + real (digits_value fp) / 10 ^ length fp
      in if s = [] then Num 0
         else if ip @ fp \<noteq> [] \<and> list_all is_digit (ip @ fp)
         then Num (if neg then - v else v)
         else NaN)"

section \<open>Aggregator\<close>

record monthly =
  month :: string
  total :: double

text \<open>
  \<open>Number(x.toFixed(2))\<close> on a finite \<open>x\<close>, before the digits are read back: below
  \<open>10^21\<close> in magnitude the nearest multiple of a hundredth, the larger magnitude on a
  tie, with the sign of \<open>x\<close>; from \<open>10^21\<close> on \<open>toFixed\<close> prints the number itself.
\<close>

definition toFixed2 :: "real \<Rightarrow> real" where
  "toFixed2 x =
     (if 10 ^ 21 \<le> \<bar>x\<bar> then x
      else sgn x * (of_int \<lfloor>\<bar>x\<bar> * 100 + 1 / 2\<rfloor> / 100))"

text \<open>
  \<open>Number(total.toFixed(2))\<close> on a double: the digits printed for a finite total are read
  back as a double; an infinity and \<open>NaN\<close> are printed by name and read back unchanged.
\<close>

fun Number_toFixed2 :: "(real \<Rightarrow> double) \<Rightarrow> double \<Rightarrow> double" where
  "Number_toFixed2 fl (Fin x) = fl (toFixed2 x)"
| "Number_toFixed2 fl x = x"

text \<open>\<open>map[key] || 0\<close> on a stored sum: \<open>NaN\<close> (and zero) are falsy.\<close>

fun acc_or_zero :: "double \<Rightarrow> double" where
  "acc_or_zero NotANumber = Fin 0"
| "acc_or_zero x = x"

text \<open>
  \<open>map[key] = (map[key] || 0) + v\<close> on an object used as a dictionary, kept in the order
  in which keys were first written; an absent key reads as \<open>undefined\<close>, which is falsy.
\<close>

fun add_to ::
  "(real \<Rightarrow> double) \<Rightarrow> string \<Rightarrow> double \<Rightarrow> (string \<times> double) list \<Rightarrow> (string \<times> double) list"
where
  "add_to fl key v [] = [(key, d_add fl (Fin 0) v)]"
| "add_to fl key v ((k, t) # m) =
     (if k = key then (k, d_add fl (acc_or_zero t) v) # m else (k, t) # add_to fl key v m)"

text \<open>
  The dictionary that \<open>monthlyTotals\<close> fills before rounding. \<open>monthKey\<close> formats what
  the host's \<open>Date\<close> reads from the date string in the local time zone; it is a parameter.
  \<open>Number(e.amount) || 0\<close> is the amount, or 0 for an amount that is no number.
\<close>

definition month_sums ::
  "(real \<Rightarrow> double) \<Rightarrow> (string \<Rightarrow> string) \<Rightarrow> expense list \<Rightarrow> (string \<times> double) list"
where
  "month_sums fl monthKey expenses =
     foldl (\<lambda>m e. add_to fl (monthKey (date e)) (Fin (num_or_zero (amount e))) m) [] expenses"

text \<open>
  The entries are rounded and then sorted by \<open>localeCompare\<close> on the keys, modelled as
  the lexicographic order of the code units (the two agree on keys of digits and hyphens).
\<close>

definition monthlyTotals ::
  "(real \<Rightarrow> double) \<Rightarrow> (string \<Rightarrow> string) \<Rightarrow> expense list \<Rightarrow> monthly list"
where
  "monthlyTotals fl monthKey expenses =
     sort_key month
       (map (\<lambda>(k, t). \<lparr>month = k, total = Number_toFixed2 fl t\<rparr>)
          (month_sums fl monthKey expenses))"

section \<open>Forecaster\<close>

record prediction =
  monthIndex :: nat
  predicted :: double

text \<open>The loop that accumulates \<open>num\<close> and \<open>den\<close>.\<close>

definition num_den ::
  "(real \<Rightarrow> double) \<Rightarrow> double list \<Rightarrow> double list \<Rightarrow> double \<Rightarrow> double \<Rightarrow> nat \<Rightarrow> double \<times> double"
where
  "num_den fl xs ys xMean yMean n =
     foldl (\<lambda>(num, den) i.
              (d_add fl num (d_mul fl (d_sub fl (xs ! i) xMean) (d_sub fl (ys ! i) yMean)),
               d_add fl den (d_mul fl (d_sub fl (xs ! i) xMean) (d_sub fl (xs ! i) xMean))))
       (Fin 0, Fin 0) [0..<n]"

text \<open>
  Slope and intercept as \<open>linearRegressionPredict\<close> computes them for \<open>n > 0\<close>. Its
  argument \<open>monthlyTotals\<close> is called \<open>totals\<close> here. The two \<open>reduce\<close> calls add from
  the left, starting at 0; the indices and the length are small integers, which are doubles.
\<close>

definition lr_fit :: "(real \<Rightarrow> double) \<Rightarrow> monthly list \<Rightarrow> double \<times> double" where
  "lr_fit fl totals =
     (let n = length totals;
          xs = map (\<lambda>i. Fin (real i)) [0..<n];
          ys = map total totals;
          xMean = d_div fl (foldl (d_add fl) (Fin 0) xs) (Fin (real n));
          yMean = d_div fl (foldl (d_add fl) (Fin 0) ys) (Fin (real n));
          (num, den) = num_den fl xs ys xMean yMean n;
          slope = (if den = Fin 0 then Fin 0 else d_div fl num den);
          intercept = d_sub fl yMean (d_mul fl slope xMean)
      in (slope, intercept))"

definition linearRegressionPredict ::
  "(real \<Rightarrow> double) \<Rightarrow> monthly list \<Rightarrow> nat \<Rightarrow> prediction list"
where
  "linearRegressionPredict fl totals monthsOut =
     (let n = length totals in
      if n = 0 then map (\<lambda>i. \<lparr>monthIndex = i, predicted = Fin 0\<rparr>) [0..<monthsOut]
      else
        let (slope, intercept) = lr_fit fl totals
        in map (\<lambda>i. let xi = n + i;
                          pred = d_add fl (d_mul fl slope (Fin (real xi))) intercept
                      in \<lparr>monthIndex = xi, predicted = Math_max (Fin 0) pred\<rparr>)
             [0..<monthsOut])"

section \<open>Alert evaluator\<close>

definition predictedNextMonth :: "prediction list \<Rightarrow> double" where
  "predictedNextMonth prediction =
     (if length prediction > 0 then predicted (prediction ! 0) else Fin 0)"


section \<open>Goal progress\<close>

record goal =
  name :: string
  target :: real

record progress =
  saved :: jsnum
  pct :: jsnum

fun js_add :: "jsnum \<Rightarrow> jsnum \<Rightarrow> jsnum" where
  "js_add (Num a) (Num b) = Num (a + b)"
| "js_add _ _ = NaN"

text \<open>\<open>Math.round\<close>: the nearest integer, the larger one on a tie.\<close>

definition Math_round :: "real \<Rightarrow> int" where
  "Math_round x = \<lfloor>x + 1 / 2\<rfloor>"

text \<open>
  \<open>progressForGoal\<close>. The sum runs over the expenses whose amount is positive, so it is
  never negative: with a target of 0 the quotient is \<open>+Infinity\<close>, whose minimum with 100
  is 100, or \<open>0/0 = NaN\<close> when the sum is 0. A sum that is \<open>NaN\<close> stays \<open>NaN\<close> in both
  fields.
\<close>

definition progressForGoal :: "expense list \<Rightarrow> goal \<Rightarrow> progress" where
  "progressForGoal expenses g =
     (case foldl (\<lambda>a b. js_add a (amount b)) (Num 0)
             (filter (\<lambda>e. js_gt (amount e) (Num 0)) expenses) of
        NaN \<Rightarrow> \<lparr>saved = NaN, pct = NaN\<rparr>
      | Num s \<Rightarrow>
          \<lparr>saved = Num (toFixed2 s),
           pct = (if target g = 0 then (if 0 < s then Num 100 else NaN)
                  else Num (min 100 (of_int (Math_round (s / target g * 100)))))\<rparr>)"

text \<open>
  The number of lines that \<open>importCSV\<close> drops for having fewer than three fields, the sum
  of the numeric amounts of a list of expenses, and the sum of its positive amounts.
\<close>

definition short_rows :: "string \<Rightarrow> nat" where
  "short_rows text = length (filter (\<lambda>r. length (split_comma r) < 3) (csv_rows text))"




definition positive_sum :: "expense list \<Rightarrow> real" where
  "positive_sum expenses =
     sum_list (map (\<lambda>e. num_or_zero (amount e)) (filter (\<lambda>e. js_gt (amount e) (Num 0)) expenses))"

section \<open>Properties of the categorizer\<close>

lemma includes_iff: "str_includes s kw \<longleftrightarrow> (\<exists>ps ss. s = ps @ kw @ ss)"
proof (induction s)
  case Nil
  then show ?case by auto
next
  case (Cons c cs)
  show ?case
  proof
    assume "str_includes (c # cs) kw"
    then consider "prefix kw (c # cs)" | "str_includes cs kw" by auto
    then show "\<exists>ps ss. c # cs = ps @ kw @ ss"
    proof cases
      case 1
      then obtain ss where "c # cs = kw @ ss" by (auto simp: prefix_def)
      then have "c # cs = [] @ kw @ ss" by simp
      then show ?thesis by blast
    next
      case 2
      with Cons.IH obtain ps ss where "cs = ps @ kw @ ss" by blast
      then have "c # cs = (c # ps) @ kw @ ss" by simp
      then show ?thesis by blast
    qed
  next
    assume "\<exists>ps ss. c # cs = ps @ kw @ ss"
    then obtain ps ss where eq: "c # cs = ps @ kw @ ss" by blast
    show "str_includes (c # cs) kw"
    proof (cases ps)
      case Nil
      with eq have "prefix kw (c # cs)" by (simp add: prefix_def)
      then show ?thesis by simp
    next
      case (Cons p ps')
      with eq have "cs = ps' @ kw @ ss" by simp
      with Cons.IH have "str_includes cs kw" by blast
      then show ?thesis by simp
    qed
  qed
qed

lemma keyword_scan_key:
  "keyword_scan s m = Some cat \<Longrightarrow> cat \<in> fst ` set m"
  by (induction s m rule: keyword_scan.induct) (auto split: if_splits)

text \<open>
  Claim C1, as amended. For every non-empty description and every amount strictly greater
  than 0 the categorizer returns \<open>Income\<close>, whatever the description says. (An empty or
  absent description is answered \<open>Other\<close> before the amount is looked at.)
\<close>

theorem categorize_positive_income:
  "description e = Some d \<Longrightarrow> d \<noteq> [] \<Longrightarrow> js_gt (amount e) (Num 0) \<Longrightarrow>
     categorizeExpense e = ''Income''"
  by (simp add: categorizeExpense_def)

theorem categorize_positive_income_witness:
  "''Grocery refund'' \<noteq> [] \<and> js_gt (Num 3000) (Num 0) \<and>
   categorizeExpense \<lparr>description = Some ''Grocery refund'', amount = Num 3000\<rparr> = ''Income''"
  using categorize_positive_income
          [of "\<lparr>description = Some ''Grocery refund'', amount = Num 3000\<rparr>" "''Grocery refund''"]
  by simp

text \<open>
  The claim as it was stated includes the empty description; there the positive amount
  does not decide.
\<close>

theorem categorize_empty_positive_counterexample:
  "js_gt (Num 1) (Num 0) \<and>
   categorizeExpense \<lparr>description = Some [], amount = Num 1\<rparr> \<noteq> ''Income''"
  by (simp add: categorizeExpense_def)

text \<open>
  Claim C4, as amended. For every amount that is not positive, a description that holds a
  Dining keyword and a Shopping keyword, and no keyword of the three categories tested
  before Dining, is categorized as Dining.
\<close>

theorem categorize_dining_before_shopping:
  "description e = Some d \<Longrightarrow> \<not> js_gt (amount e) (Num 0) \<Longrightarrow>
   has_keyword ''Dining'' d \<Longrightarrow> has_keyword ''Shopping'' d \<Longrightarrow>
   \<not> has_keyword ''Groceries'' d \<Longrightarrow> \<not> has_keyword ''Entertainment'' d \<Longrightarrow>
   \<not> has_keyword ''Transport'' d \<Longrightarrow>
     categorizeExpense e = ''Dining''"
  unfolding has_keyword_def keywords_of_def KEYWORD_MAP_def categorizeExpense_def
  by (auto simp: Let_def toLowerCase_def)

theorem categorize_dining_before_shopping_witness:
  "\<not> js_gt (Num (- 12)) (Num 0) \<and>
   has_keyword ''Dining'' ''Cafe at the Mall'' \<and> has_keyword ''Shopping'' ''Cafe at the Mall'' \<and>
   \<not> has_keyword ''Groceries'' ''Cafe at the Mall'' \<and>
   \<not> has_keyword ''Entertainment'' ''Cafe at the Mall'' \<and>
   \<not> has_keyword ''Transport'' ''Cafe at the Mall'' \<and>
   categorizeExpense \<lparr>description = Some ''Cafe at the Mall'', amount = Num (- 12)\<rparr> = ''Dining''"
proof -
  have a: "\<not> js_gt (Num (- 12)) (Num 0)" by simp
  have d: "has_keyword ''Dining'' ''Cafe at the Mall''" by code_simp
  have s: "has_keyword ''Shopping'' ''Cafe at the Mall''" by code_simp
  have g: "\<not> has_keyword ''Groceries'' ''Cafe at the Mall''" by code_simp
  have n: "\<not> has_keyword ''Entertainment'' ''Cafe at the Mall''" by code_simp
  have t: "\<not> has_keyword ''Transport'' ''Cafe at the Mall''" by code_simp
  have "categorizeExpense \<lparr>description = Some ''Cafe at the Mall'', amount = Num (- 12)\<rparr> = ''Dining''"
    using categorize_dining_before_shopping
            [of "\<lparr>description = Some ''Cafe at the Mall'', amount = Num (- 12)\<rparr>"
                "''Cafe at the Mall''"] a d s g n t
    by simp
  with a d s g n t show ?thesis by blast
qed

text \<open>
  The claim as it was stated: a description with the keywords \<open>cafe\<close> and \<open>mall\<close> that
  also holds the Groceries keyword \<open>market\<close> is not Dining.
\<close>

theorem categorize_dining_shopping_counterexample:
  "\<not> js_gt (Num (- 5)) (Num 0) \<and>
   has_keyword ''Dining'' ''market cafe mall'' \<and> has_keyword ''Shopping'' ''market cafe mall'' \<and>
   categorizeExpense \<lparr>description = Some ''market cafe mall'', amount = Num (- 5)\<rparr> = ''Groceries'' \<and>
   ''Groceries'' \<noteq> ''Dining''"
proof -
  have d: "has_keyword ''Dining'' ''market cafe mall''" by code_simp
  have s: "has_keyword ''Shopping'' ''market cafe mall''" by code_simp
  have c: "categorizeExpense \<lparr>description = Some ''market cafe mall'', amount = Num (- 5)\<rparr>
             = ''Groceries''" by code_simp
  from d s c show ?thesis by simp
qed

text \<open>
  Claim C10. The categorizer is a total function, and for every description, present or
  not, and every amount, numeric or not, its result is one of the nine labels of
  \<open>CATEGORIES\<close>.
\<close>

theorem categorize_in_CATEGORIES: "categorizeExpense e \<in> set CATEGORIES"
proof (cases "description e")
  case None
  then show ?thesis by (simp add: categorizeExpense_def CATEGORIES_def)
next
  case (Some d)
  have keys: "fst ` set KEYWORD_MAP \<subseteq> set CATEGORIES"
    by (simp add: KEYWORD_MAP_def CATEGORIES_def)
  show ?thesis
  proof (cases "keyword_scan (toLowerCase d) KEYWORD_MAP")
    case None
    with Some show ?thesis by (simp add: categorizeExpense_def CATEGORIES_def)
  next
    case (Some cat)
    then have "cat \<in> set CATEGORIES" using keys keyword_scan_key by blast
    moreover have "''Other'' \<in> set CATEGORIES" "''Income'' \<in> set CATEGORIES"
      by (simp_all add: CATEGORIES_def)
    ultimately show ?thesis
      using Some \<open>description e = Some d\<close> by (simp add: categorizeExpense_def)
  qed
qed

section \<open>Properties of the aggregator\<close>
















text \<open>
  Without the bound the sums overflow: two expenses of \<open>1e308\<close> in January and two of
  \<open>-1e308\<close> in February give the totals \<open>Infinity\<close> and \<open>-Infinity\<close>, although the four
  amounts add up to 0.
\<close>

lemma monthlyTotals_overflow:
  "monthlyTotals exact_fl (take 7)
      [\<lparr>description = Some ''a'', amount = Num (10 ^ 308), date = ''2025-01-05'', category = ''Other''\<rparr>,
       \<lparr>description = Some ''b'', amount = Num (10 ^ 308), date = ''2025-01-06'', category = ''Other''\<rparr>,
       \<lparr>description = Some ''c'', amount = Num (- (10 ^ 308)), date = ''2025-02-05'', category = ''Other''\<rparr>,
       \<lparr>description = Some ''d'', amount = Num (- (10 ^ 308)), date = ''2025-02-06'', category = ''Other''\<rparr>]
     = [\<lparr>month = ''2025-01'', total = PosInf\<rparr>, \<lparr>month = ''2025-02'', total = NegInf\<rparr>]"
  by (simp add: monthlyTotals_def month_sums_def exact_fl_def)

section \<open>Properties of the forecaster\<close>

lemma lr_fit_single:
  assumes "representable fl (Fin 0)" and "representable fl t"
  shows "lr_fit fl [\<lparr>month = m, total = t\<rparr>] = (Fin 0, t)"
proof -
  have zero: "fl 0 = Fin 0" using assms(1) by simp
  show ?thesis
  proof (cases t)
    case (Fin r)
    then have "fl r = Fin r" using assms(2) by simp
    then show ?thesis using zero Fin by (simp add: lr_fit_def num_den_def d_sub_def)
  next
    case PosInf
    then show ?thesis using zero by (simp add: lr_fit_def num_den_def d_sub_def)
  next
    case NegInf
    then show ?thesis using zero by (simp add: lr_fit_def num_den_def d_sub_def)
  next
    case NotANumber
    then show ?thesis using zero by (simp add: lr_fit_def num_den_def d_sub_def)
  qed
qed

lemma predict_single:
  assumes "representable fl (Fin 0)" and "representable fl t"
  shows "linearRegressionPredict fl [\<lparr>month = m, total = t\<rparr>] h
           = map (\<lambda>i. \<lparr>monthIndex = 1 + i, predicted = Math_max (Fin 0) t\<rparr>) [0..<h]"
proof -
  have zero: "fl 0 = Fin 0" using assms(1) by simp
  have "d_add fl (Fin 0) t = t" using assms(2) by (cases t) simp_all
  then show ?thesis
    using zero by (simp add: linearRegressionPredict_def lr_fit_single [OF assms])
qed

text \<open>
  Claim C5. For a series of one entry with total \<open>t\<close> the fitted slope is 0 and the
  intercept is \<open>t\<close>, and for every horizon each prediction is \<open>max(0, t)\<close>; a single total
  of 100 and a horizon of 2 give two predictions of 100. This holds with exact arithmetic
  (the rounding \<open>Fin\<close>) for every finite \<open>t\<close>, and with every rounding \<open>fl\<close> of the host for
  every double \<open>d\<close>, finite or not, since \<open>fl\<close> leaves the doubles 0 and \<open>d\<close> as they are.
\<close>

theorem forecast_single_point_flat:
  "lr_fit Fin [\<lparr>month = m, total = Fin t\<rparr>] = (Fin 0, Fin t) \<and>
   linearRegressionPredict Fin [\<lparr>month = m, total = Fin t\<rparr>] h
     = map (\<lambda>i. \<lparr>monthIndex = 1 + i, predicted = Fin (max 0 t)\<rparr>) [0..<h] \<and>
   linearRegressionPredict Fin [\<lparr>month = ''2025-01'', total = Fin 100\<rparr>] 2
     = [\<lparr>monthIndex = 1, predicted = Fin 100\<rparr>, \<lparr>monthIndex = 2, predicted = Fin 100\<rparr>] \<and>
   (representable fl (Fin 0) \<and> representable fl d \<longrightarrow>
      lr_fit fl [\<lparr>month = m, total = d\<rparr>] = (Fin 0, d) \<and>
      linearRegressionPredict fl [\<lparr>month = m, total = d\<rparr>] h
        = map (\<lambda>i. \<lparr>monthIndex = 1 + i, predicted = Math_max (Fin 0) d\<rparr>) [0..<h])"
proof -
  have two: "[0..<2] = [0, Suc 0]" by (simp add: upt_rec)
  have exact: "representable Fin (Fin r)" for r by simp
  have fit: "lr_fit Fin [\<lparr>month = m, total = Fin t\<rparr>] = (Fin 0, Fin t)"
    by (rule lr_fit_single [OF exact exact])
  have flat: "linearRegressionPredict Fin [\<lparr>month = m, total = Fin t\<rparr>] h
     = map (\<lambda>i. \<lparr>monthIndex = 1 + i, predicted = Fin (max 0 t)\<rparr>) [0..<h]"
    by (simp add: predict_single [OF exact exact])
  have example: "linearRegressionPredict Fin [\<lparr>month = ''2025-01'', total = Fin 100\<rparr>] 2
     = [\<lparr>monthIndex = 1, predicted = Fin 100\<rparr>, \<lparr>monthIndex = 2, predicted = Fin 100\<rparr>]"
    by (simp add: predict_single [OF exact exact] two)
  have general: "representable fl (Fin 0) \<and> representable fl d \<longrightarrow>
      lr_fit fl [\<lparr>month = m, total = d\<rparr>] = (Fin 0, d) \<and>
      linearRegressionPredict fl [\<lparr>month = m, total = d\<rparr>] h
        = map (\<lambda>i. \<lparr>monthIndex = 1 + i, predicted = Math_max (Fin 0) d\<rparr>) [0..<h]"
    using lr_fit_single predict_single by blast
  from fit flat example general show ?thesis by blast
qed

theorem forecast_single_point_flat_witness:
  "representable exact_fl (Fin 0) \<and> representable exact_fl (Fin 100) \<and>
   lr_fit exact_fl [\<lparr>month = ''2025-01'', total = Fin 100\<rparr>] = (Fin 0, Fin 100) \<and>
   linearRegressionPredict exact_fl [\<lparr>month = ''2025-01'', total = Fin 100\<rparr>] 2
     = [\<lparr>monthIndex = 1, predicted = Fin 100\<rparr>, \<lparr>monthIndex = 2, predicted = Fin 100\<rparr>]"
proof -
  have two: "[0..<2] = [0, Suc 0]" by (simp add: upt_rec)
  have r0: "representable exact_fl (Fin 0)" and r100: "representable exact_fl (Fin 100)"
    by (simp_all add: exact_fl_def)
  from forecast_single_point_flat [of "''2025-01''" 0 2 exact_fl "Fin 100"] r0 r100
  have "lr_fit exact_fl [\<lparr>month = ''2025-01'', total = Fin 100\<rparr>] = (Fin 0, Fin 100)"
    and "linearRegressionPredict exact_fl [\<lparr>month = ''2025-01'', total = Fin 100\<rparr>] 2
     = map (\<lambda>i. \<lparr>monthIndex = 1 + i, predicted = Math_max (Fin 0) (Fin 100)\<rparr>) [0..<2]"
    by blast+
  with r0 r100 show ?thesis by (simp add: two)
qed





section \<open>Properties of the alert evaluator\<close>


section \<open>Properties of the goal progress\<close>

lemma foldl_js_add:
  "foldl (\<lambda>a b. js_add a (amount b)) (Num a0) (filter (\<lambda>e. js_gt (amount e) (Num 0)) es)
     = Num (a0 + positive_sum es)"
proof (induction es arbitrary: a0)
  case Nil
  then show ?case by (simp add: positive_sum_def)
next
  case (Cons e es)
  show ?case
  proof (cases "amount e")
    case (Num x)
    with Cons.IH [of "a0 + x"] Cons.IH [of a0] show ?thesis
      by (simp add: positive_sum_def)
  next
    case NaN
    with Cons.IH [of a0] show ?thesis by (simp add: positive_sum_def)
  qed
qed



lemma progressForGoal_eq:
  "progressForGoal es g =
     \<lparr>saved = Num (toFixed2 (positive_sum es)),
      pct = (if target g = 0 then (if 0 < positive_sum es then Num 100 else NaN)
             else Num (min 100 (of_int (Math_round (positive_sum es / target g * 100)))))\<rparr>"
  using foldl_js_add [of 0 es] by (simp add: progressForGoal_def)




text \<open>
  Claim C9. The saved value does not depend on the goal: two goals over the same list of
  expenses report the same saved value.
\<close>

theorem progressForGoal_saved_goal_independent:
  "saved (progressForGoal es g1) = saved (progressForGoal es g2)"
  by (simp add: progressForGoal_eq)

section \<open>Properties of the ingestion\<close>

lemma foldl_csv_row:
  "foldl (csv_row N) acc rows
     = acc @ map (\<lambda>r. csv_expense N (split_comma r))
               (filter (\<lambda>r. \<not> length (split_comma r) < 3) rows)"
  by (induction rows arbitrary: acc) (simp_all add: csv_row_def Let_def)

lemma example_rows:
  "csv_rows ''2025-01-05,Coffee shop,-4.50\<newline>badrow''
     = [''2025-01-05,Coffee shop,-4.50'', ''badrow'']"
  by code_simp

lemma example_rows_good:
  "csv_rows ''2025-01-05,Coffee shop,-4.50'' = [''2025-01-05,Coffee shop,-4.50'']"
  by code_simp

lemma example_split:
  "split_comma ''2025-01-05,Coffee shop,-4.50'' = [''2025-01-05'', ''Coffee shop'', ''-4.50'']"
  by code_simp

lemma example_split_bad: "split_comma ''badrow'' = [''badrow'']"
  by code_simp

lemma example_trim:
  "trim ''2025-01-05'' = ''2025-01-05''"
  "trim ''Coffee shop'' = ''Coffee shop''"
  "trim ''-4.50'' = ''-4.50''"
  by code_simp+

text \<open>
  Claim C2, as amended. \<open>importCSV\<close> never fails. It drops every line with fewer than
  three comma-separated fields and keeps one expense for each other non-blank line, in
  order, so the kept and the dropped lines together are the non-blank lines; its only
  result is the stored list with the parsed expenses in front, and no count of dropped
  lines is returned. The text of a good row followed by \<open>badrow\<close> gives exactly one parsed
  expense.
\<close>

theorem importCSV_skips_short_rows:
  "csv_parsed N text
     = map (\<lambda>r. csv_expense N (split_comma r))
         (filter (\<lambda>r. \<not> length (split_comma r) < 3) (csv_rows text)) \<and>
   length (csv_parsed N text) + short_rows text = length (csv_rows text) \<and>
   importCSV N text s = csv_parsed N text @ s \<and>
   csv_parsed N ''2025-01-05,Coffee shop,-4.50\<newline>badrow''
     = [\<lparr>description = Some ''Coffee shop'', amount = N ''-4.50'', date = ''2025-01-05'',
         category = categorizeExpense
           \<lparr>description = Some ''Coffee shop'', amount = N ''-4.50''\<rparr>\<rparr>]"
proof -
  have parsed: "csv_parsed N t
     = map (\<lambda>r. csv_expense N (split_comma r))
         (filter (\<lambda>r. \<not> length (split_comma r) < 3) (csv_rows t))" for t
    by (simp add: csv_parsed_def foldl_csv_row)
  have count: "length (csv_parsed N text) + short_rows text = length (csv_rows text)"
    using sum_length_filter_compl [of "\<lambda>r. length (split_comma r) < 3" "csv_rows text"]
    by (simp add: parsed short_rows_def)
  have example: "csv_parsed N ''2025-01-05,Coffee shop,-4.50\<newline>badrow''
     = [\<lparr>description = Some ''Coffee shop'', amount = N ''-4.50'', date = ''2025-01-05'',
         category = categorizeExpense
           \<lparr>description = Some ''Coffee shop'', amount = N ''-4.50''\<rparr>\<rparr>]"
    by (simp add: parsed example_rows example_split example_split_bad csv_expense_def
          example_trim Let_def)
  from parsed [of "text"] count example show ?thesis by (simp add: importCSV_def)
qed

text \<open>
  The claim as it was stated: the example text has one dropped line and the text without
  \<open>badrow\<close> has none, and \<open>importCSV\<close> gives the same result for both, so its result holds
  no count of dropped lines.
\<close>

theorem importCSV_skip_count_counterexample:
  "short_rows ''2025-01-05,Coffee shop,-4.50\<newline>badrow'' = 1 \<and>
   short_rows ''2025-01-05,Coffee shop,-4.50'' = 0 \<and>
   importCSV decimal_Number ''2025-01-05,Coffee shop,-4.50\<newline>badrow'' []
     = importCSV decimal_Number ''2025-01-05,Coffee shop,-4.50'' []"
  by (simp add: short_rows_def importCSV_def csv_parsed_def csv_row_def
        example_rows example_rows_good example_split example_split_bad)

end
